theory Spec2Isabelle
  imports Main "HOL-Library.Word"
begin

unbundle bit_operations_syntax

section \<open>RARP responder (install-server/main.go)\<close>

subsection \<open>Bytes, constants and errors\<close>

type_synonym byte = "8 word"
type_synonym uint16 = "16 word"
type_synonym bytes = "byte list"

text \<open>EtherType values and ARP / RARP opcodes, as the code's untyped constants are used:
  at type \<open>uint16\<close>.\<close>

definition ETH_P_RARP :: uint16 where "ETH_P_RARP = 0x8035"
definition ETH_P_IP :: uint16 where "ETH_P_IP = 0x0800"

definition ARP_REQUEST :: uint16 where "ARP_REQUEST = 1"
definition ARP_REPLY :: uint16 where "ARP_REPLY = 2"
definition RARP_REQUEST :: uint16 where "RARP_REQUEST = 3"
definition RARP_REPLY :: uint16 where "RARP_REPLY = 4"

text \<open>The failures of the code, as values. The first five are the \<open>fmt.Errorf\<close> results
  (\<open>frame too short: %d\<close>, \<open>not RARP ethertype: 0x%04x\<close>, \<open>invalid mapping entry: %q\<close>,
  \<open>parse MAC %q: ...\<close>, \<open>parse IPv4 %q: invalid\<close>) with the value each message prints;
  \<open>SliceOutOfRange\<close> is Go's run-time panic on a slice expression \<open>s[:n]\<close> with \<open>n\<close>
  beyond the slice (the model takes a slice's capacity to be its length).\<close>

datatype error =
    FrameTooShort nat
  | WrongEthertype uint16
  | InvalidMappingEntry string
  | InvalidMacAddress string
  | InvalidIPv4Address string
  | SliceOutOfRange

record EthHdr =
  Dst :: bytes
  Src :: bytes
  Type :: uint16

record RarpPacket =
  HType :: uint16
  PType :: uint16
  HLEN :: byte
  PLEN :: byte
  Oper :: uint16
  SHA :: bytes
  SPA :: bytes
  THA :: bytes
  TPA :: bytes

subsection \<open>Byte order and slices\<close>

text \<open>\<open>func htons(i uint16) uint16 { return (i<<8)&0xff00 | i>>8 }\<close>\<close>

definition htons :: "uint16 \<Rightarrow> uint16" where
  "htons i = (push_bit 8 i AND 0xff00) OR drop_bit 8 i"

text \<open>\<open>b[lo:hi]\<close> for \<open>lo \<le> hi \<le> length b\<close>; every use below is behind a length check.\<close>

definition subslice :: "'a list \<Rightarrow> nat \<Rightarrow> nat \<Rightarrow> 'a list" where
  "subslice b lo hi = take (hi - lo) (drop lo b)"

text \<open>Go's built-in \<open>copy(dst, src)\<close>: the first \<open>min (len dst) (len src)\<close> elements of
  \<open>dst\<close> are overwritten; the value is the new \<open>dst\<close>.\<close>

definition copy_go :: "'a list \<Rightarrow> 'a list \<Rightarrow> 'a list" where
  "copy_go dst src = take (length dst) src @ drop (length src) dst"

text \<open>\<open>copy(buf[lo:hi], src)\<close>: the copy lands in \<open>buf\<close>, which the sub-slice aliases.\<close>

definition copy_into :: "'a list \<Rightarrow> nat \<Rightarrow> nat \<Rightarrow> 'a list \<Rightarrow> 'a list" where
  "copy_into buf lo hi src = take lo buf @ copy_go (subslice buf lo hi) src @ drop hi buf"

text \<open>\<open>binary.BigEndian.PutUint16(buf[o:o+2], v)\<close>: \<open>b[0] = byte(v >> 8); b[1] = byte(v)\<close>.\<close>

definition BigEndian_PutUint16 :: "bytes \<Rightarrow> nat \<Rightarrow> uint16 \<Rightarrow> bytes" where
  "BigEndian_PutUint16 buf o' v = buf[o' := ucast (drop_bit 8 v), o' + 1 := ucast v]"

text \<open>\<open>binary.BigEndian.Uint16(b)\<close>: \<open>uint16(b[1]) | uint16(b[0])<<8\<close>, on a 2-byte slice.\<close>

definition BigEndian_Uint16 :: "bytes \<Rightarrow> uint16" where
  "BigEndian_Uint16 b = ucast (b ! 1) OR push_bit 8 (ucast (b ! 0))"

text \<open>A zeroed array \<open>[n]byte\<close>, the value of \<open>var a [n]byte\<close>.\<close>

definition zeros :: "nat \<Rightarrow> bytes" where
  "zeros n = replicate n 0"

text \<open>\<open>net.IP.To4\<close> of the Go standard library: a 4-byte address is itself, a 16-byte
  IPv4-mapped address (ten zero bytes, then \<open>ff ff\<close>) is its last four bytes, anything else
  is \<open>nil\<close>.\<close>

definition To4 :: "bytes \<Rightarrow> bytes option" where
  "To4 ip =
     (if length ip = 4 then Some ip
      else if length ip = 16 \<and> list_all (\<lambda>x. x = 0) (subslice ip 0 10)
              \<and> ip ! 10 = 0xff \<and> ip ! 11 = 0xff
      then Some (subslice ip 12 16)
      else None)"

text \<open>\<open>func macToArray(mac net.HardwareAddr) (out [6]byte) { copy(out[:], mac[:6]); return }\<close>\<close>

definition macToArray :: "bytes \<Rightarrow> error + bytes" where
  "macToArray mac =
     (if length mac < 6 then Inl SliceOutOfRange
      else Inr (copy_go (zeros 6) (subslice mac 0 6)))"

text \<open>\<open>func ipToArray(ip net.IP) (out [4]byte) { copy(out[:], ip.To4()[:4]); return }\<close>;
  slicing the \<open>nil\<close> that \<open>To4\<close> returns for a non-IPv4 address panics.\<close>

definition ipToArray :: "bytes \<Rightarrow> error + bytes" where
  "ipToArray ip =
     (case To4 ip of
        None \<Rightarrow> Inl SliceOutOfRange
      | Some v \<Rightarrow> Inr (copy_go (zeros 4) (subslice v 0 4)))"

subsection \<open>Frame codec\<close>

text \<open>\<open>buildRarpReply\<close>. The Go function returns \<open>(buf, nil)\<close> whenever it returns; it
  panics where a slice expression is out of range, in the order of the source lines.\<close>

definition buildRarpReply :: "bytes \<Rightarrow> bytes \<Rightarrow> bytes \<Rightarrow> bytes \<Rightarrow> error + bytes" where
  "buildRarpReply serverMAC serverIP targetMAC targetIP =
     (if length targetMAC < 6 then Inl SliceOutOfRange
      else if length serverMAC < 6 then Inl SliceOutOfRange
      else
        let eth = \<lparr> Dst = copy_go (zeros 6) (subslice targetMAC 0 6),
                    Src = copy_go (zeros 6) (subslice serverMAC 0 6),
                    Type = htons ETH_P_RARP \<rparr>
        in
        (case macToArray serverMAC of Inl e \<Rightarrow> Inl e | Inr sha \<Rightarrow>
        (case ipToArray serverIP of Inl e \<Rightarrow> Inl e | Inr spa \<Rightarrow>
        (case macToArray targetMAC of Inl e \<Rightarrow> Inl e | Inr tha \<Rightarrow>
        (case ipToArray targetIP of Inl e \<Rightarrow> Inl e | Inr tpa \<Rightarrow>
        (let pkt = \<lparr> HType = htons 1, PType = htons ETH_P_IP, HLEN = 6, PLEN = 4,
                     Oper = htons RARP_REPLY,
                     SHA = sha, SPA = spa, THA = tha, TPA = tpa \<rparr>;
             buf = zeros (14 + 28);
             buf = BigEndian_PutUint16 buf 12 (Type eth);
             buf = copy_into buf 0 6 (Dst eth);
             buf = copy_into buf 6 12 (Src eth);
             buf = BigEndian_PutUint16 buf 14 (HType pkt);
             buf = BigEndian_PutUint16 buf 16 (PType pkt);
             buf = buf[18 := HLEN pkt];
             buf = buf[19 := PLEN pkt];
             buf = BigEndian_PutUint16 buf 20 (Oper pkt);
             buf = copy_into buf 22 28 (SHA pkt);
             buf = copy_into buf 28 32 (SPA pkt);
             buf = copy_into buf 32 38 (THA pkt);
             buf = copy_into buf 38 42 (TPA pkt)
         in Inr buf))))))"

text \<open>\<open>parseIncomingRarp\<close>. On an error the Go function also returns the partly filled
  structs, which its only caller drops; the model returns the error alone.\<close>

definition parseIncomingRarp :: "bytes \<Rightarrow> error + (EthHdr \<times> RarpPacket)" where
  "parseIncomingRarp b =
     (if length b < 14 + 28 then Inl (FrameTooShort (length b))
      else
        let eth = \<lparr> Dst = copy_go (zeros 6) (subslice b 0 6),
                    Src = copy_go (zeros 6) (subslice b 6 12),
                    Type = BigEndian_Uint16 (subslice b 12 14) \<rparr>
        in
        if Type eth \<noteq> htons ETH_P_RARP then Inl (WrongEthertype (Type eth))
        else
          Inr (eth,
               \<lparr> HType = BigEndian_Uint16 (subslice b 14 16),
                 PType = BigEndian_Uint16 (subslice b 16 18),
                 HLEN = b ! 18,
                 PLEN = b ! 19,
                 Oper = BigEndian_Uint16 (subslice b 20 22),
                 SHA = copy_go (zeros 6) (subslice b 22 28),
                 SPA = copy_go (zeros 4) (subslice b 28 32),
                 THA = copy_go (zeros 6) (subslice b 32 38),
                 TPA = copy_go (zeros 4) (subslice b 38 42) \<rparr>))"

subsection \<open>Mapping table\<close>

text \<open>\<open>strings.Split(s, sep)\<close> for a one-byte separator: cut at every occurrence; a
  string without the separator is the only piece.\<close>

function Split :: "string \<Rightarrow> char \<Rightarrow> string list" where
  "Split s sep =
     (if sep \<in> set s
      then takeWhile (\<lambda>c. c \<noteq> sep) s # Split (tl (dropWhile (\<lambda>c. c \<noteq> sep) s)) sep
      else [s])"
  by pat_completeness auto
termination
proof (relation "measure (\<lambda>(s, sep). length s)")
  show "wf (measure (\<lambda>(s, sep). length s))" by simp
next
  fix s :: string and sep :: char
  assume "sep \<in> set s"
  then have "dropWhile (\<lambda>c. c \<noteq> sep) s \<noteq> []" by simp
  then have "length (tl (dropWhile (\<lambda>c. c \<noteq> sep) s)) < length (dropWhile (\<lambda>c. c \<noteq> sep) s)"
    by simp
  also have "\<dots> \<le> length s" by (rule length_dropWhile_le)
  finally show "((tl (dropWhile (\<lambda>c. c \<noteq> sep) s), sep), (s, sep)) \<in> measure (\<lambda>(s, sep). length s)"
    by simp
qed

declare Split.simps [simp del]

text \<open>\<open>strings.SplitN(s, sep, n)\<close> for a one-byte separator and \<open>n \<ge> 0\<close>: at most \<open>n\<close>
  pieces, the last one the unsplit remainder; \<open>n = 0\<close> gives \<open>nil\<close>.\<close>

fun SplitN :: "string \<Rightarrow> char \<Rightarrow> nat \<Rightarrow> string list" where
  "SplitN s sep 0 = []"
| "SplitN s sep (Suc 0) = [s]"
| "SplitN s sep (Suc (Suc n)) =
     (if sep \<in> set s
      then takeWhile (\<lambda>c. c \<noteq> sep) s # SplitN (tl (dropWhile (\<lambda>c. c \<noteq> sep) s)) sep (Suc n)
      else [s])"

text \<open>The functions of the Go standard library that \<open>parseMapping\<close> calls and whose text is
  not part of the repository are parameters of the model: \<open>strings.TrimSpace\<close>,
  \<open>net.ParseMAC\<close> (\<open>None\<close> for a non-nil \<open>err\<close>) and \<open>net.ParseIP\<close> (\<open>None\<close> for
  \<open>nil\<close>).\<close>

record netlib =
  TrimSpace :: "string \<Rightarrow> string"
  ParseMAC :: "string \<Rightarrow> bytes option"
  ParseIP :: "string \<Rightarrow> bytes option"

type_synonym table = "bytes \<rightharpoonup> bytes"

text \<open>The \<open>for _, p := range pairs\<close> loop of \<open>parseMapping\<close>, with the map \<open>m\<close> passed
  along. \<open>net.ParseIP(ipStr).To4()\<close> is \<open>nil\<close> when \<open>ParseIP\<close> returns \<open>nil\<close>; \<open>mac[:6]\<close>
  panics on a slice shorter than six bytes.\<close>

fun parsePairs :: "netlib \<Rightarrow> string list \<Rightarrow> table \<Rightarrow> error + table" where
  "parsePairs L [] m = Inr m"
| "parsePairs L (p # pairs) m =
     (let p = TrimSpace L p in
      if p = [] then parsePairs L pairs m
      else
        let kv = SplitN p CHR ''='' 2 in
        if length kv \<noteq> 2 then Inl (InvalidMappingEntry p)
        else
          let macStr = TrimSpace L (kv ! 0);
              ipStr = TrimSpace L (kv ! 1)
          in
          (case ParseMAC L macStr of
             None \<Rightarrow> Inl (InvalidMacAddress macStr)
           | Some mac \<Rightarrow>
               (case (case ParseIP L ipStr of None \<Rightarrow> None | Some a \<Rightarrow> To4 a) of
                  None \<Rightarrow> Inl (InvalidIPv4Address ipStr)
                | Some ip \<Rightarrow>
                    if length mac < 6 then Inl SliceOutOfRange
                    else
                      let mac6 = copy_go (zeros 6) (subslice mac 0 6);
                          ip4 = copy_go (zeros 4) (subslice ip 0 4)
                      in parsePairs L pairs (m(mac6 \<mapsto> ip4)))))"

definition parseMapping :: "netlib \<Rightarrow> string \<Rightarrow> error + table" where
  "parseMapping L s =
     (if s = [] then Inr Map.empty
      else parsePairs L (Split s CHR '','') Map.empty)"

subsection \<open>Request dispatcher\<close>

text \<open>What \<open>main\<close> has set up when its loop starts: the interface's hardware address, its
  first IPv4 address, the table and the \<open>-v\<close> flag.\<close>

record server =
  main_ifc_HardwareAddr :: bytes
  main_serverIP :: bytes
  main_macToIP :: table
  main_verbose :: bool

text \<open>The effects of the loop: the frames handed to \<open>unix.Sendto\<close> and the lines printed
  with \<open>log.Printf\<close>, both in order.\<close>

datatype log_line =
    SkipFrame error
  | IgnoreOpcode uint16
  | NoMappingFor bytes
  | SendtoFailed
  | Answered bytes bytes

record io =
  sent :: "bytes list"
  logged :: "log_line list"

definition log_Printf :: "log_line \<Rightarrow> io \<Rightarrow> io" where
  "log_Printf l w = w\<lparr>logged := logged w @ [l]\<rparr>"

text \<open>One iteration of the \<open>for\<close> loop of \<open>main\<close>, from the frame that \<open>reader.Read\<close>
  returned. \<open>sendto_fails\<close> is the outcome of the \<open>unix.Sendto\<close> call, if the iteration
  makes it. \<open>Inl\<close> is a panic inside \<open>buildRarpReply\<close>, which ends the process; its
  \<open>err\<close> result is always \<open>nil\<close>.\<close>

definition main_loop_body :: "server \<Rightarrow> bool \<Rightarrow> bytes \<Rightarrow> io \<Rightarrow> error + io" where
  "main_loop_body srv sendto_fails frame w =
     (case parseIncomingRarp frame of
        Inl err \<Rightarrow> Inr (if main_verbose srv then log_Printf (SkipFrame err) w else w)
      | Inr (eth, pkt) \<Rightarrow>
          if Oper pkt \<noteq> htons RARP_REQUEST
          then Inr (if main_verbose srv then log_Printf (IgnoreOpcode (Oper pkt)) w else w)
          else
            let targetMAC = THA pkt in
            (case main_macToIP srv targetMAC of
               None \<Rightarrow> Inr (if main_verbose srv then log_Printf (NoMappingFor targetMAC) w else w)
             | Some ip4 \<Rightarrow>
                 (case buildRarpReply (main_ifc_HardwareAddr srv) (main_serverIP srv) (THA pkt) ip4 of
                    Inl e \<Rightarrow> Inl e
                  | Inr reply \<Rightarrow>
                      let w = w\<lparr>sent := sent w @ [reply]\<rparr> in
                      if sendto_fails then Inr (log_Printf SendtoFailed w)
                      else Inr (if main_verbose srv then log_Printf (Answered (THA pkt) ip4) w
                                else w))))"

subsection \<open>An instance of the library parameters\<close>

text \<open>The instance below follows the Go standard library on ASCII text: \<open>TrimSpace\<close> removes
  the six ASCII white-space bytes at both ends (the Unicode spaces beyond ASCII are left
  alone), \<open>ParseMAC\<close> reads the colon, hyphen and dot forms of 6, 8 and 20 byte addresses,
  and \<open>ParseIP\<close> reads dotted-quad IPv4 text into the 16-byte IPv4-in-IPv6 form (IPv6 text
  is not read). It is used for concrete inputs only.\<close>

definition asciiSpace :: "char \<Rightarrow> bool" where
  "asciiSpace c = (c \<in> set [CHR 0x09, CHR 0x0A, CHR 0x0B, CHR 0x0C, CHR 0x0D, CHR '' ''])"

definition strings_TrimSpace :: "string \<Rightarrow> string" where
  "strings_TrimSpace s = rev (dropWhile asciiSpace (rev (dropWhile asciiSpace s)))"

definition xdigit :: "char \<Rightarrow> nat option" where
  "xdigit c =
     (let n = (of_char c :: nat) in
      if 48 \<le> n \<and> n \<le> 57 then Some (n - 48)
      else if 97 \<le> n \<and> n \<le> 102 then Some (n - 97 + 10)
      else if 65 \<le> n \<and> n \<le> 70 then Some (n - 65 + 10)
      else None)"

text \<open>\<open>xtoi2(s, e)\<close>: the next two hex digits of \<open>s\<close> as a byte; a third byte, if there is
  one, must be \<open>e\<close>.\<close>

definition xtoi2 :: "string \<Rightarrow> char \<Rightarrow> byte option" where
  "xtoi2 s e =
     (case s of
        a # b # rest \<Rightarrow>
          if rest \<noteq> [] \<and> hd rest \<noteq> e then None
          else (case xdigit a of None \<Rightarrow> None | Some h \<Rightarrow>
               (case xdigit b of None \<Rightarrow> None | Some l \<Rightarrow> Some (of_nat (16 * h + l))))
      | _ \<Rightarrow> None)"

fun mac_octets :: "nat \<Rightarrow> string \<Rightarrow> char \<Rightarrow> bytes option" where
  "mac_octets 0 s e = Some []"
| "mac_octets (Suc n) s e =
     (case xtoi2 s e of
        None \<Rightarrow> None
      | Some b \<Rightarrow> map_option (\<lambda>r. b # r) (mac_octets n (drop 3 s) e))"

fun mac_groups :: "nat \<Rightarrow> string \<Rightarrow> char \<Rightarrow> bytes option" where
  "mac_groups 0 s e = Some []"
| "mac_groups (Suc n) s e =
     (case xtoi2 (take 2 s) (CHR 0x00) of
        None \<Rightarrow> None
      | Some h \<Rightarrow>
          (case xtoi2 (drop 2 s) e of
             None \<Rightarrow> None
           | Some l \<Rightarrow> map_option (\<lambda>r. h # l # r) (mac_groups n (drop 5 s) e)))"

definition net_ParseMAC :: "string \<Rightarrow> bytes option" where
  "net_ParseMAC s =
     (if length s < 14 then None
      else if s ! 2 = CHR '':'' \<or> s ! 2 = CHR ''-'' then
        (if (length s + 1) mod 3 \<noteq> 0 then None
         else
           let n = (length s + 1) div 3 in
           if n \<noteq> 6 \<and> n \<noteq> 8 \<and> n \<noteq> 20 then None
           else mac_octets n s (s ! 2))
      else if s ! 4 = CHR ''.'' then
        (if (length s + 1) mod 5 \<noteq> 0 then None
         else
           let n = 2 * (length s + 1) div 5 in
           if n \<noteq> 6 \<and> n \<noteq> 8 \<and> n \<noteq> 20 then None
           else mac_groups (n div 2) s (s ! 4))
      else None)"

definition ddigit :: "char \<Rightarrow> nat option" where
  "ddigit c =
     (let n = (of_char c :: nat) in
      if 48 \<le> n \<and> n \<le> 57 then Some (n - 48) else None)"

text \<open>One field of a dotted quad: one to three decimal digits, no leading zero, at most
  255.\<close>

definition dec_octet :: "string \<Rightarrow> byte option" where
  "dec_octet f =
     (if f = [] \<or> 3 < length f \<or> (1 < length f \<and> hd f = CHR ''0'') then None
      else if list_all (\<lambda>c. ddigit c \<noteq> None) f
      then (let v = foldl (\<lambda>acc c. 10 * acc + the (ddigit c)) 0 f
            in if 255 < v then None else Some (of_nat v))
      else None)"

definition v4InV6Prefix :: bytes where
  "v4InV6Prefix = [0, 0, 0, 0, 0, 0, 0, 0, 0, 0, 0xff, 0xff]"

definition net_ParseIP :: "string \<Rightarrow> bytes option" where
  "net_ParseIP s =
     (case map dec_octet (Split s CHR ''.'') of
        [Some a, Some b, Some c, Some d] \<Rightarrow> Some (v4InV6Prefix @ [a, b, c, d])
      | _ \<Rightarrow> None)"

definition golib :: netlib where
  "golib = \<lparr> TrimSpace = strings_TrimSpace, ParseMAC = net_ParseMAC, ParseIP = net_ParseIP \<rparr>"

section \<open>Properties\<close>

subsection \<open>Lists of known length, numerals\<close>

lemma length6_obtain:
  assumes "length (xs :: 'a list) = 6"
  obtains a b c d e f where "xs = [a, b, c, d, e, f]"
  using assms by (auto simp: numeral_eq_Suc length_Suc_conv)

lemma length4_obtain:
  assumes "length (xs :: 'a list) = 4"
  obtains a b c d where "xs = [a, b, c, d]"
  using assms by (auto simp: numeral_eq_Suc length_Suc_conv)

lemma list_update_numeral: "(x # xs)[numeral n := y] = x # xs[pred_numeral n := y]"
  by (simp add: numeral_eq_Suc)

lemma replicate_numeral: "replicate (numeral n) x = x # replicate (pred_numeral n) x"
  by (simp add: numeral_eq_Suc)

lemma zeros_42:
  "zeros 42 = [0,0,0,0,0,0,0,0,0,0,0,0,0,0,0,0,0,0,0,0,0,
               0,0,0,0,0,0,0,0,0,0,0,0,0,0,0,0,0,0,0,0,0]"
  by (simp add: zeros_def replicate_numeral)

subsection \<open>Byte order\<close>

text \<open>\<open>htons\<close> swaps the two bytes of each constant the code passes to it.\<close>

lemma htons_values:
  "htons ETH_P_RARP = 0x3580"
  "htons 1 = 0x0100"
  "htons ETH_P_IP = 0x0008"
  "htons RARP_REPLY = 0x0400"
  "htons RARP_REQUEST = 0x0300"
  by (simp_all add: htons_def ETH_P_RARP_def ETH_P_IP_def RARP_REPLY_def RARP_REQUEST_def)

lemma PutUint16_bytes:
  "ucast (drop_bit 8 (0x3580 :: uint16)) = (0x35 :: byte)" "ucast (0x3580 :: uint16) = (0x80 :: byte)"
  "ucast (drop_bit 8 (0x0100 :: uint16)) = (0x01 :: byte)" "ucast (0x0100 :: uint16) = (0x00 :: byte)"
  "ucast (drop_bit 8 (0x0008 :: uint16)) = (0x00 :: byte)" "ucast (0x0008 :: uint16) = (0x08 :: byte)"
  "ucast (drop_bit 8 (0x0400 :: uint16)) = (0x04 :: byte)" "ucast (0x0400 :: uint16) = (0x00 :: byte)"
  by simp_all

text \<open>Reading with \<open>BigEndian.Uint16\<close> what \<open>BigEndian.PutUint16\<close> wrote gives the value
  back, and the two bytes read determine the value.\<close>

lemma Uint16_PutUint16: "BigEndian_Uint16 [ucast (drop_bit 8 v), ucast v] = v"
  unfolding BigEndian_Uint16_def
  by (simp, rule bit_word_eqI) (auto simp: bit_simps)

lemma Uint16_high_byte: "ucast (drop_bit 8 (BigEndian_Uint16 [x, y])) = x"
  unfolding BigEndian_Uint16_def
  by (simp, rule bit_word_eqI) (auto simp: bit_simps dest: bit_imp_le_length)

lemma Uint16_low_byte: "ucast (BigEndian_Uint16 [x, y]) = y"
  unfolding BigEndian_Uint16_def
  by (simp, rule bit_word_eqI) (auto simp: bit_simps dest: bit_imp_le_length)

lemma Uint16_inject: "BigEndian_Uint16 [x, y] = BigEndian_Uint16 [x', y'] \<longleftrightarrow> x = x' \<and> y = y'"
  by (metis Uint16_high_byte Uint16_low_byte)

lemma Uint16_values:
  "BigEndian_Uint16 [0x35, 0x80] = 0x3580"
  "BigEndian_Uint16 [0x80, 0x35] = 0x8035"
  "BigEndian_Uint16 [0x04, 0x00] = 0x0400"
  "BigEndian_Uint16 [0x03, 0x00] = 0x0300"
  "BigEndian_Uint16 [0x01, 0x00] = 0x0100"
  "BigEndian_Uint16 [0x00, 0x08] = 0x0008"
  "BigEndian_Uint16 [0x00, 0x03] = 0x0003"
  "BigEndian_Uint16 [0x08, 0x00] = 0x0800"
  by (simp_all add: BigEndian_Uint16_def)

subsection \<open>The frame that \<open>buildRarpReply\<close> writes\<close>

lemmas build_simps =
  buildRarpReply_def macToArray_def ipToArray_def To4_def copy_go_def copy_into_def subslice_def
  BigEndian_PutUint16_def htons_values Let_def list_update_numeral PutUint16_bytes zeros_42
  zeros_def replicate_numeral

lemma buildRarpReply_frame:
  assumes "length serverMAC = 6" "length serverIP = 4" "length targetMAC = 6" "length targetIP = 4"
  shows "buildRarpReply serverMAC serverIP targetMAC targetIP =
           Inr (targetMAC @ serverMAC @ [0x35, 0x80, 0x01, 0x00, 0x00, 0x08, 6, 4, 0x04, 0x00]
                @ serverMAC @ serverIP @ targetMAC @ targetIP)"
proof -
  obtain a1 a2 a3 a4 a5 a6 where sm: "serverMAC = [a1, a2, a3, a4, a5, a6]"
    using assms(1) by (rule length6_obtain)
  obtain b1 b2 b3 b4 b5 b6 where tm: "targetMAC = [b1, b2, b3, b4, b5, b6]"
    using assms(3) by (rule length6_obtain)
  obtain c1 c2 c3 c4 where si: "serverIP = [c1, c2, c3, c4]"
    using assms(2) by (rule length4_obtain)
  obtain d1 d2 d3 d4 where ti: "targetIP = [d1, d2, d3, d4]"
    using assms(4) by (rule length4_obtain)
  show ?thesis
    unfolding sm tm si ti by (simp add: build_simps cong: let_weak_cong)
qed

lemmas parse_simps =
  parseIncomingRarp_def copy_go_def subslice_def zeros_def replicate_numeral Let_def htons_values

text \<open>What \<open>parseIncomingRarp\<close> returns for a frame given by its fields, whatever the
  header fields hold, as long as bytes 12 and 13 are \<open>35 80\<close>.\<close>

lemma parseIncomingRarp_fields:
  assumes "length dst = 6" "length src = 6" "length sha = 6" "length spa = 4"
    "length tha = 6" "length tpa = 4"
  shows "parseIncomingRarp (dst @ src @ [0x35, 0x80, h1, h2, p1, p2, hl, pl, o1, o2]
                            @ sha @ spa @ tha @ tpa @ trailer) =
           Inr (\<lparr> Dst = dst, Src = src, Type = 0x3580 \<rparr>,
                \<lparr> HType = BigEndian_Uint16 [h1, h2], PType = BigEndian_Uint16 [p1, p2],
                  HLEN = hl, PLEN = pl, Oper = BigEndian_Uint16 [o1, o2],
                  SHA = sha, SPA = spa, THA = tha, TPA = tpa \<rparr>)"
proof -
  obtain a1 a2 a3 a4 a5 a6 where 1: "dst = [a1, a2, a3, a4, a5, a6]"
    using assms(1) by (rule length6_obtain)
  obtain b1 b2 b3 b4 b5 b6 where 2: "src = [b1, b2, b3, b4, b5, b6]"
    using assms(2) by (rule length6_obtain)
  obtain c1 c2 c3 c4 c5 c6 where 3: "sha = [c1, c2, c3, c4, c5, c6]"
    using assms(3) by (rule length6_obtain)
  obtain d1 d2 d3 d4 where 4: "spa = [d1, d2, d3, d4]"
    using assms(4) by (rule length4_obtain)
  obtain e1 e2 e3 e4 e5 e6 where 5: "tha = [e1, e2, e3, e4, e5, e6]"
    using assms(5) by (rule length6_obtain)
  obtain f1 f2 f3 f4 where 6: "tpa = [f1, f2, f3, f4]"
    using assms(6) by (rule length4_obtain)
  show ?thesis
    unfolding 1 2 3 4 5 6 by (simp add: parse_simps Uint16_values)
qed

subsection \<open>Claims on the frame codec\<close>

text \<open>C1. Decoding the frame that \<open>buildRarpReply\<close> produces for 6-byte hardware addresses
  and 4-byte IPv4 addresses succeeds and recovers the four values in the sender and target
  fields (and in the Ethernet header). The decoded opcode is \<open>htons RARP_REPLY = 0x0400\<close>,
  the byte-swapped constant, and so is not \<open>RARP_REPLY = 4\<close>: the code swaps the opcode
  with \<open>htons\<close> and then writes it with \<open>BigEndian.PutUint16\<close>.\<close>

theorem decode_of_encode:
  assumes "length serverMAC = 6" "length serverIP = 4" "length targetMAC = 6" "length targetIP = 4"
  shows "\<exists>buf eth pkt.
           buildRarpReply serverMAC serverIP targetMAC targetIP = Inr buf
         \<and> parseIncomingRarp buf = Inr (eth, pkt)
         \<and> SHA pkt = serverMAC \<and> SPA pkt = serverIP
         \<and> THA pkt = targetMAC \<and> TPA pkt = targetIP
         \<and> Dst eth = targetMAC \<and> Src eth = serverMAC
         \<and> Oper pkt = 0x0400 \<and> Oper pkt \<noteq> RARP_REPLY"
proof -
  have "parseIncomingRarp (targetMAC @ serverMAC @ [0x35, 0x80, 0x01, 0x00, 0x00, 0x08, 6, 4, 0x04, 0x00]
                           @ serverMAC @ serverIP @ targetMAC @ targetIP @ []) =
          Inr (\<lparr> Dst = targetMAC, Src = serverMAC, Type = 0x3580 \<rparr>,
               \<lparr> HType = BigEndian_Uint16 [0x01, 0x00], PType = BigEndian_Uint16 [0x00, 0x08],
                 HLEN = 6, PLEN = 4, Oper = BigEndian_Uint16 [0x04, 0x00],
                 SHA = serverMAC, SPA = serverIP, THA = targetMAC, TPA = targetIP \<rparr>)"
    using assms by (intro parseIncomingRarp_fields) simp_all
  then show ?thesis
    using buildRarpReply_frame [OF assms]
    by (simp add: Uint16_values RARP_REPLY_def)
qed

theorem decode_of_encode_witness:
  "\<exists>buf eth pkt.
     buildRarpReply [0x00, 0x11, 0x22, 0x33, 0x44, 0x55] [192, 168, 1, 1]
                    [0xaa, 0xbb, 0xcc, 0xdd, 0xee, 0xff] [192, 168, 1, 10] = Inr buf
   \<and> parseIncomingRarp buf = Inr (eth, pkt)
   \<and> SHA pkt = [0x00, 0x11, 0x22, 0x33, 0x44, 0x55] \<and> SPA pkt = [192, 168, 1, 1]
   \<and> THA pkt = [0xaa, 0xbb, 0xcc, 0xdd, 0xee, 0xff] \<and> TPA pkt = [192, 168, 1, 10]
   \<and> Dst eth = [0xaa, 0xbb, 0xcc, 0xdd, 0xee, 0xff] \<and> Src eth = [0x00, 0x11, 0x22, 0x33, 0x44, 0x55]
   \<and> Oper pkt = 1024 \<and> Oper pkt \<noteq> 4"
  using decode_of_encode [of "[0x00, 0x11, 0x22, 0x33, 0x44, 0x55]" "[192, 168, 1, 1]"
                             "[0xaa, 0xbb, 0xcc, 0xdd, 0xee, 0xff]" "[192, 168, 1, 10]"]
  by (simp add: RARP_REPLY_def)

text \<open>C2. For 6-byte hardware addresses and 4-byte IPv4 addresses \<open>buildRarpReply\<close> returns
  exactly 42 bytes with the addresses at the offsets of the layout, hardware-address length 6
  and protocol-address length 4. The four 16-bit fields are on the wire with their bytes
  swapped: bytes 12-13 are \<open>35 80\<close> (not the RARP ethertype \<open>80 35\<close>), the hardware type is
  \<open>01 00\<close>, the protocol type \<open>00 08\<close> and the opcode \<open>04 00\<close>.\<close>

theorem buildRarpReply_wire_layout:
  assumes "length serverMAC = 6" "length serverIP = 4" "length targetMAC = 6" "length targetIP = 4"
  shows "\<exists>buf.
           buildRarpReply serverMAC serverIP targetMAC targetIP = Inr buf
         \<and> length buf = 42
         \<and> subslice buf 0 6 = targetMAC \<and> subslice buf 6 12 = serverMAC
         \<and> subslice buf 12 14 = [0x35, 0x80]
         \<and> BigEndian_Uint16 (subslice buf 12 14) \<noteq> ETH_P_RARP
         \<and> subslice buf 14 16 = [0x01, 0x00]
         \<and> BigEndian_Uint16 (subslice buf 14 16) \<noteq> 1
         \<and> subslice buf 16 18 = [0x00, 0x08]
         \<and> BigEndian_Uint16 (subslice buf 16 18) \<noteq> ETH_P_IP
         \<and> buf ! 18 = 6 \<and> buf ! 19 = 4
         \<and> subslice buf 20 22 = [0x04, 0x00]
         \<and> BigEndian_Uint16 (subslice buf 20 22) \<noteq> RARP_REPLY
         \<and> subslice buf 22 28 = serverMAC \<and> subslice buf 28 32 = serverIP
         \<and> subslice buf 32 38 = targetMAC \<and> subslice buf 38 42 = targetIP"
proof -
  obtain a1 a2 a3 a4 a5 a6 where sm: "serverMAC = [a1, a2, a3, a4, a5, a6]"
    using assms(1) by (rule length6_obtain)
  obtain b1 b2 b3 b4 b5 b6 where tm: "targetMAC = [b1, b2, b3, b4, b5, b6]"
    using assms(3) by (rule length6_obtain)
  obtain c1 c2 c3 c4 where si: "serverIP = [c1, c2, c3, c4]"
    using assms(2) by (rule length4_obtain)
  obtain d1 d2 d3 d4 where ti: "targetIP = [d1, d2, d3, d4]"
    using assms(4) by (rule length4_obtain)
  show ?thesis
    using buildRarpReply_frame [OF assms] unfolding sm tm si ti
    by (simp add: subslice_def Uint16_values ETH_P_RARP_def ETH_P_IP_def RARP_REPLY_def)
qed

theorem buildRarpReply_wire_layout_witness:
  "buildRarpReply [0x00, 0x11, 0x22, 0x33, 0x44, 0x55] [192, 168, 1, 1]
                  [0xaa, 0xbb, 0xcc, 0xdd, 0xee, 0xff] [192, 168, 1, 10] =
     Inr [0xaa, 0xbb, 0xcc, 0xdd, 0xee, 0xff, 0x00, 0x11, 0x22, 0x33, 0x44, 0x55, 0x35, 0x80,
          0x01, 0x00, 0x00, 0x08, 6, 4, 0x04, 0x00,
          0x00, 0x11, 0x22, 0x33, 0x44, 0x55, 192, 168, 1, 1,
          0xaa, 0xbb, 0xcc, 0xdd, 0xee, 0xff, 192, 168, 1, 10]"
proof -
  have lens: "length [0x00, 0x11, 0x22, 0x33, 0x44, 0x55 :: byte] = 6" "length [192, 168, 1, 1 :: byte] = 4"
    "length [0xaa, 0xbb, 0xcc, 0xdd, 0xee, 0xff :: byte] = 6" "length [192, 168, 1, 10 :: byte] = 4"
    by simp_all
  show ?thesis
    using buildRarpReply_wire_layout [OF lens]
    by (simp add: build_simps cong: let_weak_cong)
qed

text \<open>C3. On a frame of at least 42 bytes \<open>parseIncomingRarp\<close> fails with the ethertype
  error exactly when the big-endian 16-bit field at offset 12 differs from
  \<open>htons ETH_P_RARP = 0x3580\<close>. A frame that carries the RARP ethertype \<open>0x8035\<close> there is
  therefore rejected, as the witness shows.\<close>

theorem wrong_ethertype_iff:
  assumes "42 \<le> length b"
  shows "(\<exists>t. parseIncomingRarp b = Inl (WrongEthertype t))
           = (BigEndian_Uint16 (subslice b 12 14) \<noteq> 0x3580)"
  using assms by (auto simp: parseIncomingRarp_def Let_def htons_values)

theorem wrong_ethertype_iff_witness:
  "42 \<le> length [0xff, 0xff, 0xff, 0xff, 0xff, 0xff, 0xaa, 0xbb, 0xcc, 0xdd, 0xee, 0xff, 0x80, 0x35,
                 0x00, 0x01, 0x08, 0x00, 6, 4, 0x00, 0x03,
                 0xaa, 0xbb, 0xcc, 0xdd, 0xee, 0xff, 0, 0, 0, 0,
                 0xaa, 0xbb, 0xcc, 0xdd, 0xee, 0xff, 0, 0, 0, 0 :: byte]
   \<and> BigEndian_Uint16 (subslice [0xff, 0xff, 0xff, 0xff, 0xff, 0xff, 0xaa, 0xbb, 0xcc, 0xdd, 0xee, 0xff, 0x80, 0x35,
                 0x00, 0x01, 0x08, 0x00, 6, 4, 0x00, 0x03,
                 0xaa, 0xbb, 0xcc, 0xdd, 0xee, 0xff, 0, 0, 0, 0,
                 0xaa, 0xbb, 0xcc, 0xdd, 0xee, 0xff, 0, 0, 0, 0] 12 14) = ETH_P_RARP
   \<and> (\<exists>t. parseIncomingRarp
              [0xff, 0xff, 0xff, 0xff, 0xff, 0xff, 0xaa, 0xbb, 0xcc, 0xdd, 0xee, 0xff, 0x80, 0x35,
               0x00, 0x01, 0x08, 0x00, 6, 4, 0x00, 0x03,
               0xaa, 0xbb, 0xcc, 0xdd, 0xee, 0xff, 0, 0, 0, 0,
               0xaa, 0xbb, 0xcc, 0xdd, 0xee, 0xff, 0, 0, 0, 0] = Inl (WrongEthertype t))"
  using wrong_ethertype_iff
    [of "[0xff, 0xff, 0xff, 0xff, 0xff, 0xff, 0xaa, 0xbb, 0xcc, 0xdd, 0xee, 0xff, 0x80, 0x35,
          0x00, 0x01, 0x08, 0x00, 6, 4, 0x00, 0x03,
          0xaa, 0xbb, 0xcc, 0xdd, 0xee, 0xff, 0, 0, 0, 0,
          0xaa, 0xbb, 0xcc, 0xdd, 0xee, 0xff, 0, 0, 0, 0]"]
  by (simp add: subslice_def Uint16_values ETH_P_RARP_def)

text \<open>C10. \<open>parseIncomingRarp\<close> checks the length and bytes 12-13 only: a frame of the six
  addresses, any hardware type \<open>h\<close>, protocol type \<open>p\<close>, address lengths \<open>hl\<close> and \<open>pl\<close>
  and opcode \<open>op\<close>, and any trailer, is decoded with success whenever bytes 12-13 pass the
  ethertype test of the code, and the five fields come back as they are in the frame.\<close>

theorem parseIncomingRarp_no_field_validation:
  assumes "length dst = 6" "length src = 6" "length sha = 6" "length spa = 4"
    "length tha = 6" "length tpa = 4"
  shows "parseIncomingRarp
           (dst @ src @ BigEndian_PutUint16 [0, 0] 0 (htons ETH_P_RARP)
            @ BigEndian_PutUint16 [0, 0] 0 h @ BigEndian_PutUint16 [0, 0] 0 p @ [hl, pl]
            @ BigEndian_PutUint16 [0, 0] 0 op @ sha @ spa @ tha @ tpa @ trailer) =
           Inr (\<lparr> Dst = dst, Src = src, Type = htons ETH_P_RARP \<rparr>,
                \<lparr> HType = h, PType = p, HLEN = hl, PLEN = pl, Oper = op,
                  SHA = sha, SPA = spa, THA = tha, TPA = tpa \<rparr>)"
proof -
  have ethertype: "BigEndian_PutUint16 [0, 0] 0 (htons ETH_P_RARP) = [0x35, 0x80]"
    by (simp add: BigEndian_PutUint16_def htons_values)
  have put: "BigEndian_PutUint16 [0, 0] 0 v = [ucast (drop_bit 8 v), ucast v]" for v
    by (simp add: BigEndian_PutUint16_def)
  show ?thesis
    using parseIncomingRarp_fields [OF assms,
        of "ucast (drop_bit 8 h)" "ucast h" "ucast (drop_bit 8 p)" "ucast p" hl pl
           "ucast (drop_bit 8 op)" "ucast op" trailer]
    unfolding ethertype
    by (simp only: put Uint16_PutUint16 htons_values append.simps)
qed

theorem parseIncomingRarp_no_field_validation_witness:
  "parseIncomingRarp
     [0xff, 0xff, 0xff, 0xff, 0xff, 0xff, 0xaa, 0xbb, 0xcc, 0xdd, 0xee, 0xff, 0x35, 0x80,
      0x12, 0x34, 0x56, 0x78, 9, 7, 0xab, 0xcd,
      0xaa, 0xbb, 0xcc, 0xdd, 0xee, 0xff, 1, 2, 3, 4,
      0x00, 0x11, 0x22, 0x33, 0x44, 0x55, 5, 6, 7, 8, 0xde, 0xad] =
     Inr (\<lparr> Dst = [0xff, 0xff, 0xff, 0xff, 0xff, 0xff], Src = [0xaa, 0xbb, 0xcc, 0xdd, 0xee, 0xff],
            Type = 0x3580 \<rparr>,
          \<lparr> HType = 0x1234, PType = 0x5678, HLEN = 9, PLEN = 7, Oper = 0xabcd,
            SHA = [0xaa, 0xbb, 0xcc, 0xdd, 0xee, 0xff], SPA = [1, 2, 3, 4],
            THA = [0x00, 0x11, 0x22, 0x33, 0x44, 0x55], TPA = [5, 6, 7, 8] \<rparr>)"
proof -
  have bytes:
    "ucast (drop_bit 8 (0x1234 :: uint16)) = (0x12 :: byte)" "ucast (0x1234 :: uint16) = (0x34 :: byte)"
    "ucast (drop_bit 8 (0x5678 :: uint16)) = (0x56 :: byte)" "ucast (0x5678 :: uint16) = (0x78 :: byte)"
    "ucast (drop_bit 8 (0xabcd :: uint16)) = (0xab :: byte)" "ucast (0xabcd :: uint16) = (0xcd :: byte)"
    by simp_all
  have lens: "length [0xff, 0xff, 0xff, 0xff, 0xff, 0xff :: byte] = 6"
    "length [0xaa, 0xbb, 0xcc, 0xdd, 0xee, 0xff :: byte] = 6"
    "length [0xaa, 0xbb, 0xcc, 0xdd, 0xee, 0xff :: byte] = 6" "length [1, 2, 3, 4 :: byte] = 4"
    "length [0x00, 0x11, 0x22, 0x33, 0x44, 0x55 :: byte] = 6" "length [5, 6, 7, 8 :: byte] = 4"
    by simp_all
  have ethertype: "BigEndian_PutUint16 [0, 0] 0 (htons ETH_P_RARP) = [0x35, 0x80]"
    by (simp add: BigEndian_PutUint16_def htons_values)
  have put: "BigEndian_PutUint16 [0, 0] 0 v = [ucast (drop_bit 8 v), ucast v]" for v
    by (simp add: BigEndian_PutUint16_def)
  show ?thesis
    using parseIncomingRarp_no_field_validation
      [OF lens, of "0x1234" "0x5678" 9 7 "0xabcd" "[0xde, 0xad]"]
    unfolding ethertype
    by (simp only: put bytes htons_values append.simps)
qed

subsection \<open>Claims on the request dispatcher\<close>

lemma parseIncomingRarp_THA_length:
  assumes "parseIncomingRarp frame = Inr (eth, pkt)"
  shows "length (THA pkt) = 6"
proof -
  have "42 \<le> length frame"
    using assms by (auto simp: parseIncomingRarp_def split: if_splits)
  moreover have "THA pkt = copy_go (zeros 6) (subslice frame 32 38)"
    using assms by (auto simp: parseIncomingRarp_def Let_def split: if_splits)
  ultimately show ?thesis
    by (simp add: copy_go_def subslice_def zeros_def)
qed

text \<open>C4. The dispatcher compares the decoded opcode with \<open>htons RARP_REQUEST = 0x0300\<close>.
  With the table \<open>aa:bb:cc:dd:ee:ff \<mapsto> 192.168.1.10\<close>, a frame whose opcode field is
  RARP REQUEST (bytes \<open>00 03\<close>) is discarded without a reply, and the same frame with the
  opcode field \<open>0x0300\<close> (bytes \<open>03 00\<close>), which is not RARP REQUEST, is looked up and
  answered.\<close>

theorem dispatcher_opcode_gate:
  "main_loop_body
     \<lparr> main_ifc_HardwareAddr = [0x00, 0x11, 0x22, 0x33, 0x44, 0x55],
       main_serverIP = [192, 168, 1, 1],
       main_macToIP = [[0xaa, 0xbb, 0xcc, 0xdd, 0xee, 0xff] \<mapsto> [192, 168, 1, 10]],
       main_verbose = False \<rparr>
     False
     [0xff, 0xff, 0xff, 0xff, 0xff, 0xff, 0xaa, 0xbb, 0xcc, 0xdd, 0xee, 0xff, 0x35, 0x80,
      0x00, 0x01, 0x08, 0x00, 6, 4, 0x00, 0x03,
      0xaa, 0xbb, 0xcc, 0xdd, 0xee, 0xff, 0, 0, 0, 0,
      0xaa, 0xbb, 0xcc, 0xdd, 0xee, 0xff, 0, 0, 0, 0]
     \<lparr> sent = [], logged = [] \<rparr>
   = Inr \<lparr> sent = [], logged = [] \<rparr>
   \<and>
   main_loop_body
     \<lparr> main_ifc_HardwareAddr = [0x00, 0x11, 0x22, 0x33, 0x44, 0x55],
       main_serverIP = [192, 168, 1, 1],
       main_macToIP = [[0xaa, 0xbb, 0xcc, 0xdd, 0xee, 0xff] \<mapsto> [192, 168, 1, 10]],
       main_verbose = False \<rparr>
     False
     [0xff, 0xff, 0xff, 0xff, 0xff, 0xff, 0xaa, 0xbb, 0xcc, 0xdd, 0xee, 0xff, 0x35, 0x80,
      0x00, 0x01, 0x08, 0x00, 6, 4, 0x03, 0x00,
      0xaa, 0xbb, 0xcc, 0xdd, 0xee, 0xff, 0, 0, 0, 0,
      0xaa, 0xbb, 0xcc, 0xdd, 0xee, 0xff, 0, 0, 0, 0]
     \<lparr> sent = [], logged = [] \<rparr>
   = Inr \<lparr> sent = [[0xaa, 0xbb, 0xcc, 0xdd, 0xee, 0xff, 0x00, 0x11, 0x22, 0x33, 0x44, 0x55,
                      0x35, 0x80, 0x01, 0x00, 0x00, 0x08, 6, 4, 0x04, 0x00,
                      0x00, 0x11, 0x22, 0x33, 0x44, 0x55, 192, 168, 1, 1,
                      0xaa, 0xbb, 0xcc, 0xdd, 0xee, 0xff, 192, 168, 1, 10]],
            logged = [] \<rparr>
   \<and> BigEndian_Uint16 [0x00, 0x03] = RARP_REQUEST
   \<and> BigEndian_Uint16 [0x03, 0x00] \<noteq> RARP_REQUEST"
proof -
  have req: "parseIncomingRarp
      ([0xff, 0xff, 0xff, 0xff, 0xff, 0xff] @ [0xaa, 0xbb, 0xcc, 0xdd, 0xee, 0xff]
       @ [0x35, 0x80, 0x00, 0x01, 0x08, 0x00, 6, 4, o1, o2]
       @ [0xaa, 0xbb, 0xcc, 0xdd, 0xee, 0xff] @ [0, 0, 0, 0]
       @ [0xaa, 0xbb, 0xcc, 0xdd, 0xee, 0xff] @ [0, 0, 0, 0] @ []) =
      Inr (\<lparr> Dst = [0xff, 0xff, 0xff, 0xff, 0xff, 0xff], Src = [0xaa, 0xbb, 0xcc, 0xdd, 0xee, 0xff],
             Type = 0x3580 \<rparr>,
           \<lparr> HType = BigEndian_Uint16 [0x00, 0x01], PType = BigEndian_Uint16 [0x08, 0x00],
             HLEN = 6, PLEN = 4, Oper = BigEndian_Uint16 [o1, o2],
             SHA = [0xaa, 0xbb, 0xcc, 0xdd, 0xee, 0xff], SPA = [0, 0, 0, 0],
             THA = [0xaa, 0xbb, 0xcc, 0xdd, 0xee, 0xff], TPA = [0, 0, 0, 0] \<rparr>)" for o1 o2
    by (rule parseIncomingRarp_fields) simp_all
  have reply: "buildRarpReply [0x00, 0x11, 0x22, 0x33, 0x44, 0x55] [192, 168, 1, 1]
                 [0xaa, 0xbb, 0xcc, 0xdd, 0xee, 0xff] [192, 168, 1, 10] =
      Inr ([0xaa, 0xbb, 0xcc, 0xdd, 0xee, 0xff] @ [0x00, 0x11, 0x22, 0x33, 0x44, 0x55]
           @ [0x35, 0x80, 0x01, 0x00, 0x00, 0x08, 6, 4, 0x04, 0x00]
           @ [0x00, 0x11, 0x22, 0x33, 0x44, 0x55] @ [192, 168, 1, 1]
           @ [0xaa, 0xbb, 0xcc, 0xdd, 0xee, 0xff] @ [192, 168, 1, 10])"
    by (rule buildRarpReply_frame) simp_all
  have opcodes: "BigEndian_Uint16 [0x00, 0x03] = RARP_REQUEST"
    "BigEndian_Uint16 [0x03, 0x00] \<noteq> RARP_REQUEST"
    by (simp_all add: Uint16_values RARP_REQUEST_def)
  show ?thesis
    using req [of "0x00" "0x03"] req [of "0x03" "0x00"] reply opcodes
    by (simp add: main_loop_body_def htons_values Uint16_values)
qed

text \<open>C5. For a decoded frame whose target hardware address is a key of the table (and a
  server identity of a 6-byte hardware address and a 4-byte IPv4 address), the dispatcher
  hands exactly one frame to \<open>Sendto\<close> if the decoded opcode is \<open>htons RARP_REQUEST = 0x0300\<close>,
  and none otherwise. The frame is the one \<open>buildRarpReply\<close> writes for the server identity,
  the requester's address and the mapped IPv4 address; its opcode bytes are \<open>04 00\<close>. The
  witness is a decoded RARP REQUEST (opcode 3) of a mapped requester: it gets no reply.\<close>

theorem dispatcher_mapped_requester:
  assumes "parseIncomingRarp frame = Inr (eth, pkt)"
    and "main_macToIP srv (THA pkt) = Some ip4"
    and "length (main_ifc_HardwareAddr srv) = 6"
    and "length (main_serverIP srv) = 4"
    and "length ip4 = 4"
  shows "\<exists>w'. main_loop_body srv sendto_fails frame w = Inr w'
            \<and> sent w' =
                (if Oper pkt = 0x0300
                 then sent w @ [THA pkt @ main_ifc_HardwareAddr srv
                                @ [0x35, 0x80, 0x01, 0x00, 0x00, 0x08, 6, 4, 0x04, 0x00]
                                @ main_ifc_HardwareAddr srv @ main_serverIP srv
                                @ THA pkt @ ip4]
                 else sent w)"
proof -
  have "buildRarpReply (main_ifc_HardwareAddr srv) (main_serverIP srv) (THA pkt) ip4 =
          Inr (THA pkt @ main_ifc_HardwareAddr srv
               @ [0x35, 0x80, 0x01, 0x00, 0x00, 0x08, 6, 4, 0x04, 0x00]
               @ main_ifc_HardwareAddr srv @ main_serverIP srv @ THA pkt @ ip4)"
    using assms(3,4,5) parseIncomingRarp_THA_length [OF assms(1)]
    by (intro buildRarpReply_frame)
  then show ?thesis
    using assms(1,2)
    by (simp add: main_loop_body_def htons_values log_Printf_def Let_def)
qed

theorem dispatcher_mapped_requester_witness:
  "\<exists>w'. main_loop_body
           \<lparr> main_ifc_HardwareAddr = [0x00, 0x11, 0x22, 0x33, 0x44, 0x55],
             main_serverIP = [192, 168, 1, 1],
             main_macToIP = [[0xaa, 0xbb, 0xcc, 0xdd, 0xee, 0xff] \<mapsto> [192, 168, 1, 10]],
             main_verbose = False \<rparr>
           False
           [0xff, 0xff, 0xff, 0xff, 0xff, 0xff, 0xaa, 0xbb, 0xcc, 0xdd, 0xee, 0xff, 0x35, 0x80,
            0x00, 0x01, 0x08, 0x00, 6, 4, 0x00, 0x03,
            0xaa, 0xbb, 0xcc, 0xdd, 0xee, 0xff, 0, 0, 0, 0,
            0xaa, 0xbb, 0xcc, 0xdd, 0xee, 0xff, 0, 0, 0, 0]
           \<lparr> sent = [], logged = [] \<rparr> = Inr w'
       \<and> sent w' = []"
proof -
  have req: "parseIncomingRarp
      ([0xff, 0xff, 0xff, 0xff, 0xff, 0xff] @ [0xaa, 0xbb, 0xcc, 0xdd, 0xee, 0xff]
       @ [0x35, 0x80, 0x00, 0x01, 0x08, 0x00, 6, 4, 0x00, 0x03]
       @ [0xaa, 0xbb, 0xcc, 0xdd, 0xee, 0xff] @ [0, 0, 0, 0]
       @ [0xaa, 0xbb, 0xcc, 0xdd, 0xee, 0xff] @ [0, 0, 0, 0] @ []) =
      Inr (\<lparr> Dst = [0xff, 0xff, 0xff, 0xff, 0xff, 0xff], Src = [0xaa, 0xbb, 0xcc, 0xdd, 0xee, 0xff],
             Type = 0x3580 \<rparr>,
           \<lparr> HType = BigEndian_Uint16 [0x00, 0x01], PType = BigEndian_Uint16 [0x08, 0x00],
             HLEN = 6, PLEN = 4, Oper = BigEndian_Uint16 [0x00, 0x03],
             SHA = [0xaa, 0xbb, 0xcc, 0xdd, 0xee, 0xff], SPA = [0, 0, 0, 0],
             THA = [0xaa, 0xbb, 0xcc, 0xdd, 0xee, 0xff], TPA = [0, 0, 0, 0] \<rparr>)"
    by (rule parseIncomingRarp_fields) simp_all
  show ?thesis
    using dispatcher_mapped_requester [OF req,
        of "\<lparr> main_ifc_HardwareAddr = [0x00, 0x11, 0x22, 0x33, 0x44, 0x55],
               main_serverIP = [192, 168, 1, 1],
               main_macToIP = [[0xaa, 0xbb, 0xcc, 0xdd, 0xee, 0xff] \<mapsto> [192, 168, 1, 10]],
               main_verbose = False \<rparr>"
           "[192, 168, 1, 10]" False "\<lparr> sent = [], logged = [] \<rparr>"]
    by (simp add: Uint16_values)
qed

text \<open>C6. For a decoded frame whose target hardware address is not a key of the table, the
  dispatcher hands no frame to \<open>Sendto\<close>, whatever the opcode of the frame: the frames sent
  are those sent before.\<close>

theorem dispatcher_unmapped_requester:
  assumes "parseIncomingRarp frame = Inr (eth, pkt)"
    and "main_macToIP srv (THA pkt) = None"
  shows "\<exists>w'. main_loop_body srv sendto_fails frame w = Inr w' \<and> sent w' = sent w"
  using assms by (simp add: main_loop_body_def log_Printf_def Let_def)

theorem dispatcher_unmapped_requester_witness:
  "(\<exists>w'. main_loop_body
           \<lparr> main_ifc_HardwareAddr = [0x00, 0x11, 0x22, 0x33, 0x44, 0x55],
             main_serverIP = [192, 168, 1, 1],
             main_macToIP = [[0xaa, 0xbb, 0xcc, 0xdd, 0xee, 0xff] \<mapsto> [192, 168, 1, 10]],
             main_verbose = True \<rparr>
           False
           [0xff, 0xff, 0xff, 0xff, 0xff, 0xff, 0x52, 0x54, 0x00, 0x12, 0x34, 0x56, 0x35, 0x80,
            0x00, 0x01, 0x08, 0x00, 6, 4, 0x03, 0x00,
            0x52, 0x54, 0x00, 0x12, 0x34, 0x56, 0, 0, 0, 0,
            0x52, 0x54, 0x00, 0x12, 0x34, 0x56, 0, 0, 0, 0]
           \<lparr> sent = [], logged = [] \<rparr> = Inr w'
        \<and> sent w' = sent \<lparr> sent = [], logged = [] \<rparr>)
   \<and>
   (\<exists>w'. main_loop_body
           \<lparr> main_ifc_HardwareAddr = [0x00, 0x11, 0x22, 0x33, 0x44, 0x55],
             main_serverIP = [192, 168, 1, 1],
             main_macToIP = [[0xaa, 0xbb, 0xcc, 0xdd, 0xee, 0xff] \<mapsto> [192, 168, 1, 10]],
             main_verbose = True \<rparr>
           False
           [0xff, 0xff, 0xff, 0xff, 0xff, 0xff, 0x52, 0x54, 0x00, 0x12, 0x34, 0x56, 0x35, 0x80,
            0x00, 0x01, 0x08, 0x00, 6, 4, 0x00, 0x03,
            0x52, 0x54, 0x00, 0x12, 0x34, 0x56, 0, 0, 0, 0,
            0x52, 0x54, 0x00, 0x12, 0x34, 0x56, 0, 0, 0, 0]
           \<lparr> sent = [], logged = [] \<rparr> = Inr w'
        \<and> sent w' = sent \<lparr> sent = [], logged = [] \<rparr>)"
proof -
  have req: "parseIncomingRarp
      ([0xff, 0xff, 0xff, 0xff, 0xff, 0xff] @ [0x52, 0x54, 0x00, 0x12, 0x34, 0x56]
       @ [0x35, 0x80, 0x00, 0x01, 0x08, 0x00, 6, 4, o1, o2]
       @ [0x52, 0x54, 0x00, 0x12, 0x34, 0x56] @ [0, 0, 0, 0]
       @ [0x52, 0x54, 0x00, 0x12, 0x34, 0x56] @ [0, 0, 0, 0] @ []) =
      Inr (\<lparr> Dst = [0xff, 0xff, 0xff, 0xff, 0xff, 0xff], Src = [0x52, 0x54, 0x00, 0x12, 0x34, 0x56],
             Type = 0x3580 \<rparr>,
           \<lparr> HType = BigEndian_Uint16 [0x00, 0x01], PType = BigEndian_Uint16 [0x08, 0x00],
             HLEN = 6, PLEN = 4, Oper = BigEndian_Uint16 [o1, o2],
             SHA = [0x52, 0x54, 0x00, 0x12, 0x34, 0x56], SPA = [0, 0, 0, 0],
             THA = [0x52, 0x54, 0x00, 0x12, 0x34, 0x56], TPA = [0, 0, 0, 0] \<rparr>)" for o1 o2
    by (rule parseIncomingRarp_fields) simp_all
  show ?thesis
    using
      dispatcher_unmapped_requester [OF req [of "0x03" "0x00"],
        of "\<lparr> main_ifc_HardwareAddr = [0x00, 0x11, 0x22, 0x33, 0x44, 0x55],
               main_serverIP = [192, 168, 1, 1],
               main_macToIP = [[0xaa, 0xbb, 0xcc, 0xdd, 0xee, 0xff] \<mapsto> [192, 168, 1, 10]],
               main_verbose = True \<rparr>" False "\<lparr> sent = [], logged = [] \<rparr>"]
      dispatcher_unmapped_requester [OF req [of "0x00" "0x03"],
        of "\<lparr> main_ifc_HardwareAddr = [0x00, 0x11, 0x22, 0x33, 0x44, 0x55],
               main_serverIP = [192, 168, 1, 1],
               main_macToIP = [[0xaa, 0xbb, 0xcc, 0xdd, 0xee, 0xff] \<mapsto> [192, 168, 1, 10]],
               main_verbose = True \<rparr>" False "\<lparr> sent = [], logged = [] \<rparr>"]
    by simp
qed

subsection \<open>Splitting and the entry loop\<close>

lemma Split_no_sep: "sep \<notin> set s \<Longrightarrow> Split s sep = [s]"
  by (subst Split.simps) simp

lemma takeWhile_sep: "sep \<notin> set a \<Longrightarrow> takeWhile (\<lambda>c. c \<noteq> sep) (a @ sep # rest) = a"
  by (induction a) auto

lemma dropWhile_sep: "sep \<notin> set a \<Longrightarrow> dropWhile (\<lambda>c. c \<noteq> sep) (a @ sep # rest) = sep # rest"
  by (induction a) auto

lemma Split_sep:
  "sep \<notin> set a \<Longrightarrow> Split (a @ sep # rest) sep = a # Split rest sep"
  by (subst Split.simps) (simp add: takeWhile_sep dropWhile_sep)

lemma SplitN_2:
  "SplitN p sep 2 =
     (if sep \<in> set p
      then [takeWhile (\<lambda>c. c \<noteq> sep) p, tl (dropWhile (\<lambda>c. c \<noteq> sep) p)]
      else [p])"
  by (simp add: numeral_2_eq_2)

lemma SplitN_2_sep:
  "sep \<notin> set k \<Longrightarrow> SplitN (k @ sep # v) sep 2 = [k, v]"
  by (simp add: SplitN_2 takeWhile_sep dropWhile_sep)

lemma To4_length: "To4 a = Some ip \<Longrightarrow> length ip = 4"
  by (auto simp: To4_def subslice_def split: if_splits)

lemma copy_go_exact: "length src = n \<Longrightarrow> copy_go (zeros n) src = src"
  by (simp add: copy_go_def zeros_def)

text \<open>The loop runs through a list of entries piece by piece, and the table it starts from
  is only ever extended or overwritten.\<close>

lemma parsePairs_append:
  "parsePairs L (ps @ qs) m =
     (case parsePairs L ps m of Inl e \<Rightarrow> Inl e | Inr m' \<Rightarrow> parsePairs L qs m')"
  by (induction ps arbitrary: m) (auto simp: Let_def split: option.splits)

lemma parsePairs_from:
  "parsePairs L ps m =
     (case parsePairs L ps Map.empty of Inl e \<Rightarrow> Inl e | Inr t \<Rightarrow> Inr (m ++ t))"
proof (induction ps arbitrary: m)
  case Nil
  show ?case by simp
next
  case (Cons p ps)
  have upd: "(case parsePairs L ps (Map.empty(k \<mapsto> v)) of Inl e \<Rightarrow> Inl e | Inr t \<Rightarrow> Inr (m ++ t))
             = parsePairs L ps (m(k \<mapsto> v))" for k v
  proof -
    have "(m ++ (Map.empty(k \<mapsto> v) ++ t)) = (m(k \<mapsto> v) ++ t)" for t
      by (rule ext) (simp add: map_add_def split: option.splits)
    then show ?thesis
      by (subst Cons.IH [of "Map.empty(k \<mapsto> v)"], subst Cons.IH [of "m(k \<mapsto> v)"])
         (simp split: sum.splits)
  qed
  show ?case
    by (simp add: Let_def upd Cons.IH [of m, symmetric] split: option.splits)
qed

text \<open>One valid entry: the key is the first six bytes of whatever \<open>ParseMAC\<close> returned.\<close>

lemma parsePairs_valid_entry:
  assumes "TrimSpace L p = k @ CHR ''='' # v" "CHR ''='' \<notin> set k"
    and "ParseMAC L (TrimSpace L k) = Some mac" "6 \<le> length mac"
    and "ParseIP L (TrimSpace L v) = Some a" "To4 a = Some ip"
  shows "parsePairs L [p] m = Inr (m(take 6 mac \<mapsto> ip))"
proof -
  have kv: "SplitN (k @ CHR ''='' # v) CHR ''='' 2 = [k, v]"
    using assms(2) by (rule SplitN_2_sep)
  have mac6: "copy_go (zeros 6) (subslice mac 0 6) = take 6 mac"
    using assms(4) by (simp add: subslice_def copy_go_exact)
  have ip4: "copy_go (zeros 4) (subslice ip 0 4) = ip"
    using To4_length [OF assms(6)] by (simp add: subslice_def copy_go_exact)
  show ?thesis
    using assms(3,4,5,6)
    by (simp add: Let_def kv mac6 ip4 assms(1))
qed

lemma parsePairs_no_equals:
  assumes "TrimSpace L p \<noteq> []" "CHR ''='' \<notin> set (TrimSpace L p)"
  shows "parsePairs L (p # ps) m = Inl (InvalidMappingEntry (TrimSpace L p))"
  using assms by (simp add: Let_def SplitN_2)

lemma parsePairs_with_equals:
  assumes "CHR ''='' \<in> set (TrimSpace L p)"
  shows "parsePairs L [p] m \<noteq> Inl (InvalidMappingEntry e)"
proof -
  have "TrimSpace L p \<noteq> []" using assms by auto
  then show ?thesis
    using assms by (simp add: Let_def SplitN_2 split: option.splits)
qed

subsection \<open>The library instance on the inputs used below\<close>

lemma golib_fields:
  "TrimSpace golib = strings_TrimSpace" "ParseMAC golib = net_ParseMAC" "ParseIP golib = net_ParseIP"
  by (simp_all add: golib_def)

lemma TrimSpace_values:
  "strings_TrimSpace ''garbage'' = ''garbage''"
  "strings_TrimSpace ''a=b=c'' = ''a'' @ CHR ''='' # ''b=c''"
  "strings_TrimSpace ''a'' = ''a''"
  "strings_TrimSpace ''aa:bb:cc:dd:ee:ff'' = ''aa:bb:cc:dd:ee:ff''"
  "strings_TrimSpace ''10.0.0.5'' = ''10.0.0.5''"
  "strings_TrimSpace ''10.0.0.6'' = ''10.0.0.6''"
  "strings_TrimSpace ''00:00:5e:00:53:01:02:03'' = ''00:00:5e:00:53:01:02:03''"
  "strings_TrimSpace ''aa:bb:cc:dd:ee:ff=10.0.0.5'' = ''aa:bb:cc:dd:ee:ff'' @ CHR ''='' # ''10.0.0.5''"
  "strings_TrimSpace ''aa:bb:cc:dd:ee:ff=10.0.0.6'' = ''aa:bb:cc:dd:ee:ff'' @ CHR ''='' # ''10.0.0.6''"
  "strings_TrimSpace ''00:00:5e:00:53:01:02:03=10.0.0.5'' =
     ''00:00:5e:00:53:01:02:03'' @ CHR ''='' # ''10.0.0.5''"
  by code_simp+

lemma ParseMAC_values:
  "net_ParseMAC ''a'' = None"
  "net_ParseMAC ''aa:bb:cc:dd:ee:ff'' = Some [0xaa, 0xbb, 0xcc, 0xdd, 0xee, 0xff]"
  "net_ParseMAC ''00:00:5e:00:53:01:02:03'' = Some [0x00, 0x00, 0x5e, 0x00, 0x53, 0x01, 0x02, 0x03]"
  by code_simp+

lemma ParseIP_values:
  "net_ParseIP ''10.0.0.5'' = Some (v4InV6Prefix @ [10, 0, 0, 5])"
  "net_ParseIP ''10.0.0.6'' = Some (v4InV6Prefix @ [10, 0, 0, 6])"
  by code_simp+

lemma To4_values:
  "To4 (v4InV6Prefix @ [10, 0, 0, 5]) = Some [10, 0, 0, 5]"
  "To4 (v4InV6Prefix @ [10, 0, 0, 6]) = Some [10, 0, 0, 6]"
  by code_simp+

lemma golib_entry_5:
  "parsePairs golib [''aa:bb:cc:dd:ee:ff=10.0.0.5''] m =
     Inr (m([0xaa, 0xbb, 0xcc, 0xdd, 0xee, 0xff] \<mapsto> [10, 0, 0, 5]))"
  using parsePairs_valid_entry [of golib "''aa:bb:cc:dd:ee:ff=10.0.0.5''" "''aa:bb:cc:dd:ee:ff''"
      "''10.0.0.5''" "[0xaa, 0xbb, 0xcc, 0xdd, 0xee, 0xff]" "v4InV6Prefix @ [10, 0, 0, 5]"
      "[10, 0, 0, 5]" m]
  by (simp add: golib_fields TrimSpace_values ParseMAC_values ParseIP_values To4_values)

lemma golib_entry_6:
  "parsePairs golib [''aa:bb:cc:dd:ee:ff=10.0.0.6''] m =
     Inr (m([0xaa, 0xbb, 0xcc, 0xdd, 0xee, 0xff] \<mapsto> [10, 0, 0, 6]))"
  using parsePairs_valid_entry [of golib "''aa:bb:cc:dd:ee:ff=10.0.0.6''" "''aa:bb:cc:dd:ee:ff''"
      "''10.0.0.6''" "[0xaa, 0xbb, 0xcc, 0xdd, 0xee, 0xff]" "v4InV6Prefix @ [10, 0, 0, 6]"
      "[10, 0, 0, 6]" m]
  by (simp add: golib_fields TrimSpace_values ParseMAC_values ParseIP_values To4_values)

subsection \<open>Claims on the mapping table\<close>

text \<open>C7, as stated, fails: the entry \<open>a=b=c\<close> has more than one \<open>=\<close>, and \<open>parseMapping\<close>
  does not reject it as an invalid mapping entry. \<open>strings.SplitN(p, "=", 2)\<close> cuts it at the
  first \<open>=\<close> into \<open>a\<close> and \<open>b=c\<close>, and the failure is that of the MAC part.\<close>

theorem entry_with_two_equals_counterexample:
  "parseMapping golib ''a=b=c'' = Inl (InvalidMacAddress ''a'')
   \<and> parseMapping golib ''a=b=c'' \<noteq> Inl (InvalidMappingEntry ''a=b=c'')"
proof -
  have "Split ''a=b=c'' CHR '','' = [''a=b=c'']"
    by (rule Split_no_sep) simp
  moreover have "SplitN (''a'' @ CHR ''='' # ''b=c'') CHR ''='' 2 = [''a'', ''b=c'']"
    by (rule SplitN_2_sep) simp
  ultimately have "parseMapping golib ''a=b=c'' = Inl (InvalidMacAddress ''a'')"
    by (simp add: parseMapping_def Let_def golib_fields TrimSpace_values ParseMAC_values)
  then show ?thesis by simp
qed

text \<open>C7, amended. For a text that is one entry (no comma) and is not blank after trimming,
  \<open>parseMapping\<close> fails with the invalid-mapping-entry error exactly when the trimmed entry
  contains no \<open>=\<close>. An entry with one \<open>=\<close> or more is never rejected with that error.\<close>

theorem entry_without_equals_iff:
  assumes "s \<noteq> []" "CHR '','' \<notin> set s" "TrimSpace L s \<noteq> []"
  shows "(\<exists>e. parseMapping L s = Inl (InvalidMappingEntry e))
           = (CHR ''='' \<notin> set (TrimSpace L s))"
proof (cases "CHR ''='' \<in> set (TrimSpace L s)")
  case True
  then show ?thesis
    using assms(1) parsePairs_with_equals [of L s Map.empty]
    by (simp add: parseMapping_def Split_no_sep [OF assms(2)])
next
  case False
  then show ?thesis
    using assms(1) parsePairs_no_equals [OF assms(3), of "[]" Map.empty]
    by (simp add: parseMapping_def Split_no_sep [OF assms(2)])
qed

theorem entry_without_equals_iff_witness:
  "CHR ''='' \<notin> set (TrimSpace golib ''garbage'')
   \<and> (\<exists>e. parseMapping golib ''garbage'' = Inl (InvalidMappingEntry e))"
proof -
  have "''garbage'' \<noteq> []" "CHR '','' \<notin> set ''garbage''" "TrimSpace golib ''garbage'' \<noteq> []"
    by (simp_all add: golib_fields TrimSpace_values)
  from entry_without_equals_iff [OF this] show ?thesis
    by (simp add: golib_fields TrimSpace_values)
qed

text \<open>C8. For one entry \<open>k=v\<close> whose MAC part \<open>ParseMAC\<close> accepts with at least six bytes and
  whose IP part parses to an IPv4 address, \<open>parseMapping\<close> succeeds and the key of the table
  is the first six bytes of the hardware address: a longer address is cut, not rejected. The
  witness is an 8-byte (EUI-64) address, which \<open>net.ParseMAC\<close> accepts.\<close>

theorem parseMapping_keeps_first_six_bytes:
  assumes "s \<noteq> []" "CHR '','' \<notin> set s"
    and "TrimSpace L s = k @ CHR ''='' # v" "CHR ''='' \<notin> set k"
    and "ParseMAC L (TrimSpace L k) = Some mac" "6 \<le> length mac"
    and "ParseIP L (TrimSpace L v) = Some a" "To4 a = Some ip"
  shows "parseMapping L s = Inr [take 6 mac \<mapsto> ip]"
  using assms(1) parsePairs_valid_entry [OF assms(3-8), of Map.empty]
  by (simp add: parseMapping_def Split_no_sep [OF assms(2)])

theorem parseMapping_keeps_first_six_bytes_witness:
  "ParseMAC golib ''00:00:5e:00:53:01:02:03'' = Some [0x00, 0x00, 0x5e, 0x00, 0x53, 0x01, 0x02, 0x03]
   \<and> parseMapping golib ''00:00:5e:00:53:01:02:03=10.0.0.5'' =
       Inr [[0x00, 0x00, 0x5e, 0x00, 0x53, 0x01] \<mapsto> [10, 0, 0, 5]]"
proof -
  have "''00:00:5e:00:53:01:02:03=10.0.0.5'' \<noteq> []"
    and "CHR '','' \<notin> set ''00:00:5e:00:53:01:02:03=10.0.0.5''"
    and "TrimSpace golib ''00:00:5e:00:53:01:02:03=10.0.0.5'' =
           ''00:00:5e:00:53:01:02:03'' @ CHR ''='' # ''10.0.0.5''"
    and "CHR ''='' \<notin> set ''00:00:5e:00:53:01:02:03''"
    and "ParseMAC golib (TrimSpace golib ''00:00:5e:00:53:01:02:03'') =
           Some [0x00, 0x00, 0x5e, 0x00, 0x53, 0x01, 0x02, 0x03]"
    and "6 \<le> length [0x00, 0x00, 0x5e, 0x00, 0x53, 0x01, 0x02, 0x03 :: byte]"
    and "ParseIP golib (TrimSpace golib ''10.0.0.5'') = Some (v4InV6Prefix @ [10, 0, 0, 5])"
    and "To4 (v4InV6Prefix @ [10, 0, 0, 5]) = Some [10, 0, 0, 5]"
    by (simp_all add: golib_fields TrimSpace_values ParseMAC_values ParseIP_values To4_values)
  from parseMapping_keeps_first_six_bytes [OF this] show ?thesis
    by (simp add: golib_fields ParseMAC_values)
qed

text \<open>C9. Let \<open>p\<close> be an entry of the configuration text that parses to \<open>mac \<mapsto> ip\<close>, let the
  entries before it parse (to any table, with or without \<open>mac\<close>), and let the entries after
  it parse to a table without \<open>mac\<close>, so that \<open>p\<close> is the last entry for \<open>mac\<close>. Then
  \<open>parseMapping\<close> succeeds and its table, which has one value for each key, maps \<open>mac\<close> to
  \<open>ip\<close>.\<close>

theorem parseMapping_last_write_wins:
  assumes "s \<noteq> []"
    and "Split s CHR '','' = pre @ [p] @ post"
    and "parsePairs L pre Map.empty = Inr m1"
    and "parsePairs L [p] Map.empty = Inr [mac \<mapsto> ip]"
    and "parsePairs L post Map.empty = Inr m2"
    and "mac \<notin> dom m2"
  shows "parseMapping L s = Inr (m1(mac \<mapsto> ip) ++ m2)
         \<and> (m1(mac \<mapsto> ip) ++ m2) mac = Some ip"
proof -
  have one: "parsePairs L [p] m1 = Inr (m1(mac \<mapsto> ip))"
  proof -
    have "parsePairs L [p] m1 =
            (case parsePairs L [p] Map.empty of Inl e \<Rightarrow> Inl e | Inr t \<Rightarrow> Inr (m1 ++ t))"
      by (rule parsePairs_from)
    also have "\<dots> = Inr (m1(mac \<mapsto> ip))"
      unfolding assms(4) by simp
    finally show ?thesis .
  qed
  have rest: "parsePairs L post (m1(mac \<mapsto> ip)) = Inr (m1(mac \<mapsto> ip) ++ m2)"
  proof -
    have "parsePairs L post (m1(mac \<mapsto> ip)) =
            (case parsePairs L post Map.empty of Inl e \<Rightarrow> Inl e
             | Inr t \<Rightarrow> Inr (m1(mac \<mapsto> ip) ++ t))"
      by (rule parsePairs_from)
    also have "\<dots> = Inr (m1(mac \<mapsto> ip) ++ m2)"
      unfolding assms(5) by simp
    finally show ?thesis .
  qed
  have "parsePairs L (pre @ [p] @ post) Map.empty = Inr (m1(mac \<mapsto> ip) ++ m2)"
    by (simp only: parsePairs_append assms(3) one rest sum.case)
  moreover have "(m1(mac \<mapsto> ip) ++ m2) mac = Some ip"
    using assms(6) by (simp add: map_add_def domIff split: option.splits)
  ultimately show ?thesis
    using assms(1,2) by (simp add: parseMapping_def)
qed

theorem parseMapping_last_write_wins_witness:
  "\<exists>m. parseMapping golib ''aa:bb:cc:dd:ee:ff=10.0.0.5,aa:bb:cc:dd:ee:ff=10.0.0.6'' = Inr m
       \<and> m [0xaa, 0xbb, 0xcc, 0xdd, 0xee, 0xff] = Some [10, 0, 0, 6]
       \<and> dom m = {[0xaa, 0xbb, 0xcc, 0xdd, 0xee, 0xff]}"
proof -
  have nonempty: "''aa:bb:cc:dd:ee:ff=10.0.0.5,aa:bb:cc:dd:ee:ff=10.0.0.6'' \<noteq> []"
    by simp
  have entries: "Split ''aa:bb:cc:dd:ee:ff=10.0.0.5,aa:bb:cc:dd:ee:ff=10.0.0.6'' CHR '','' =
      [''aa:bb:cc:dd:ee:ff=10.0.0.5''] @ [''aa:bb:cc:dd:ee:ff=10.0.0.6''] @ []"
    by code_simp
  have first: "parsePairs golib [''aa:bb:cc:dd:ee:ff=10.0.0.5''] Map.empty =
      Inr [[0xaa, 0xbb, 0xcc, 0xdd, 0xee, 0xff] \<mapsto> [10, 0, 0, 5]]"
    by (rule golib_entry_5)
  have second: "parsePairs golib [''aa:bb:cc:dd:ee:ff=10.0.0.6''] Map.empty =
      Inr [[0xaa, 0xbb, 0xcc, 0xdd, 0xee, 0xff] \<mapsto> [10, 0, 0, 6]]"
    by (rule golib_entry_6)
  have none_after: "parsePairs golib [] Map.empty = Inr Map.empty"
    by simp
  have absent: "[0xaa, 0xbb, 0xcc, 0xdd, 0xee, 0xff] \<notin> dom (Map.empty :: table)"
    by simp
  show ?thesis
    using parseMapping_last_write_wins [OF nonempty entries first second none_after absent]
    by simp
qed

end
